theory Spec2Isabelle
  imports Complex_Main
begin

section \<open>Strings\<close>

text \<open>
  The chat widget works on JavaScript strings. They are modelled as \<^typ>\<open>string\<close>, one
  \<^typ>\<open>char\<close> per code unit, for text in the ASCII range: \<open>toLowerCase\<close> and
  \<open>toUpperCase\<close> map the 26 letters and leave every other character as it is. The
  bullet of the replies, which is not ASCII, is written as its three UTF-8 bytes.
\<close>

definition upper_letters :: string where
  "upper_letters = ''ABCDEFGHIJKLMNOPQRSTUVWXYZ''"

definition lower_letters :: string where
  "lower_letters = ''abcdefghijklmnopqrstuvwxyz''"

definition isUpper :: "char \<Rightarrow> bool" where
  "isUpper c = (c \<in> set upper_letters)"

definition isDigit :: "char \<Rightarrow> bool" where
  "isDigit c = (c \<in> set ''0123456789'')"

text \<open>White space as \<open>String.prototype.trim\<close> sees it, in the range of \<^typ>\<open>char\<close>.\<close>

definition isWhiteSpace :: "char \<Rightarrow> bool" where
  "isWhiteSpace c = (c \<in> set [CHR 0x09, CHR 0x0A, CHR 0x0B, CHR 0x0C, CHR 0x0D, CHR 0x20, CHR 0xA0])"

definition toLowerChar :: "char \<Rightarrow> char" where
  "toLowerChar c = (case map_of (zip upper_letters lower_letters) c of None \<Rightarrow> c | Some d \<Rightarrow> d)"

definition toUpperChar :: "char \<Rightarrow> char" where
  "toUpperChar c = (case map_of (zip lower_letters upper_letters) c of None \<Rightarrow> c | Some d \<Rightarrow> d)"

definition toLowerCase :: "string \<Rightarrow> string" where
  "toLowerCase s = map toLowerChar s"

definition toUpperCase :: "string \<Rightarrow> string" where
  "toUpperCase s = map toUpperChar s"

definition trim :: "string \<Rightarrow> string" where
  "trim s = rev (dropWhile isWhiteSpace (rev (dropWhile isWhiteSpace s)))"

fun startsWith :: "string \<Rightarrow> string \<Rightarrow> bool" where
  "startsWith s [] = True"
| "startsWith [] (c # t) = False"
| "startsWith (a # s) (c # t) = (a = c \<and> startsWith s t)"

text \<open>\<open>s.includes(t)\<close>: \<open>t\<close> occurs in \<open>s\<close> as a contiguous run.\<close>

fun includes_str :: "string \<Rightarrow> string \<Rightarrow> bool" where
  "includes_str [] t = (t = [])"
| "includes_str (a # s) t = (startsWith (a # s) t \<or> includes_str s t)"

text \<open>\<open>s.split(d)\<close> for a one-character separator: never an empty array.\<close>

fun split_on :: "char \<Rightarrow> string \<Rightarrow> string list" where
  "split_on d [] = [[]]"
| "split_on d (c # cs) =
     (if c = d then [] # split_on d cs
      else (case split_on d cs of [] \<Rightarrow> [[c]] | x # xs \<Rightarrow> (c # x) # xs))"

text \<open>\<open>s.replace(',', '')\<close> with a string pattern: only the first occurrence goes.\<close>

fun replace_first :: "char \<Rightarrow> string \<Rightarrow> string" where
  "replace_first d [] = []"
| "replace_first d (c # cs) = (if c = d then cs else c # replace_first d cs)"

section \<open>Parameter extraction (ChatInterface)\<close>

subsection \<open>Risk tolerance\<close>

definition extractRiskTolerance :: "string \<Rightarrow> string" where
  "extractRiskTolerance text =
     (if includes_str text ''conservative'' \<or> includes_str text ''safe'' then ''conservative''
      else if includes_str text ''aggressive'' \<or> includes_str text ''growth'' then ''aggressive''
      else ''balanced'')"

subsection \<open>Stock symbols\<close>

text \<open>
  \<open>text.match(/\[([^\]]+)\]/)\<close>: the leftmost \<open>[\<close> that is followed by at least one
  character other than \<open>]\<close> and then by \<open>]\<close>; the result is the captured group.
  The run \<open>[^\]]+\<close> cannot cross a \<open>]\<close>, so at each \<open>[\<close> the only candidate is
  the whole run up to the next \<open>]\<close>.
\<close>

definition notClose :: "char \<Rightarrow> bool" where
  "notClose c = (c \<noteq> CHR '']'')"

fun bracketMatch :: "string \<Rightarrow> string option" where
  "bracketMatch [] = None"
| "bracketMatch (c # cs) =
     (if c = CHR ''['' \<and> takeWhile notClose cs \<noteq> [] \<and> dropWhile notClose cs \<noteq> []
      then Some (takeWhile notClose cs)
      else bracketMatch cs)"

text \<open>
  The text has a bracketed list with contents \<open>g\<close> that opens right after \<open>p\<close> and
  is followed by \<open>q\<close>: what one match of the pattern is.
\<close>

definition bracketAt :: "string \<Rightarrow> string \<Rightarrow> string \<Rightarrow> string \<Rightarrow> bool" where
  "bracketAt text p g q = (text = p @ CHR ''['' # g @ CHR '']'' # q \<and> g \<noteq> [] \<and> CHR '']'' \<notin> set g)"

definition extractStockSymbols :: "string \<Rightarrow> string list" where
  "extractStockSymbols text =
     (case bracketMatch text of
        Some g \<Rightarrow> map (\<lambda>s. toUpperCase (trim s)) (split_on CHR '','' g)
      | None \<Rightarrow> [])"

subsection \<open>Investment amount\<close>

text \<open>
  A JavaScript number as far as this function produces one: \<open>NaN\<close>, or the decimal
  that \<open>parseFloat\<close> read, kept exact (the double is its nearest neighbour).
\<close>

datatype jsnum = NaN | Num rat

fun digitsValue :: "nat \<Rightarrow> string \<Rightarrow> nat" where
  "digitsValue acc [] = acc"
| "digitsValue acc (c # cs) =
     digitsValue (10 * acc + (case map_of (zip ''0123456789'' [0, 1, 2, 3, 4, 5, 6, 7, 8, 9]) c of
                                None \<Rightarrow> 0 | Some v \<Rightarrow> v)) cs"

text \<open>
  \<open>parseFloat\<close> on the strings the amount pattern can capture (digits, commas and a
  full stop): the longest prefix of the form digits, then optionally a full stop and
  digits, with at least one digit in all; \<open>NaN\<close> when there is no such prefix.
\<close>

definition parseFloat :: "string \<Rightarrow> jsnum" where
  "parseFloat s =
     (let ip = takeWhile isDigit s;
          r = dropWhile isDigit s;
          fp = (case r of [] \<Rightarrow> [] | c # cs \<Rightarrow> if c = CHR ''.'' then takeWhile isDigit cs else [])
      in if ip = [] \<and> fp = [] then NaN
         else Num (of_nat (digitsValue 0 ip) + of_nat (digitsValue 0 fp) / 10 ^ length fp))"

definition isDigitOrComma :: "char \<Rightarrow> bool" where
  "isDigitOrComma c = (isDigit c \<or> c = CHR '','')"

text \<open>The optional group \<open>(?:\.\d{2})?\<close> at the front of \<open>s\<close>: greedy, so taken when it fits.\<close>

definition fraction2 :: "string \<Rightarrow> string" where
  "fraction2 s =
     (case s of
        c # d1 # d2 # _ \<Rightarrow> if c = CHR ''.'' \<and> isDigit d1 \<and> isDigit d2 then [c, d1, d2] else []
      | _ \<Rightarrow> [])"

text \<open>The capturing group \<open>([\d,]+(?:\.\d{2})?)\<close> matched at the front of \<open>s\<close>.\<close>

definition amountGroup :: "string \<Rightarrow> string option" where
  "amountGroup s =
     (if takeWhile isDigitOrComma s = [] then None
      else Some (takeWhile isDigitOrComma s @ fraction2 (dropWhile isDigitOrComma s)))"

text \<open>
  The whole pattern \<open>\$?([\d,]+(?:\.\d{2})?)\<close> tried at the front of \<open>s\<close>: first with
  the dollar sign consumed, then without it.
\<close>

definition amountMatchAt :: "string \<Rightarrow> string option" where
  "amountMatchAt s =
     (case s of
        [] \<Rightarrow> None
      | c # cs \<Rightarrow>
          (if c = CHR ''$''
           then (case amountGroup cs of Some g \<Rightarrow> Some g | None \<Rightarrow> amountGroup s)
           else amountGroup s))"

text \<open>\<open>text.match(...)\<close>: the first position of the text where the pattern matches.\<close>

fun amountMatch :: "string \<Rightarrow> string option" where
  "amountMatch [] = None"
| "amountMatch (c # cs) =
     (case amountMatchAt (c # cs) of Some g \<Rightarrow> Some g | None \<Rightarrow> amountMatch cs)"

definition extractInvestmentAmount :: "string \<Rightarrow> jsnum" where
  "extractInvestmentAmount text =
     (case amountMatch text of
        Some g \<Rightarrow> parseFloat (replace_first CHR '','' g)
      | None \<Rightarrow> Num 10000)"

section \<open>Symbol parsing of the stock manager (lib/utils)\<close>

text \<open>
  \<open>parseStockSymbols\<close> runs two global patterns over the input, one after the other,
  and collects what they capture in a \<open>Set\<close>, which keeps insertion order. A match is
  the pair of the whole match and its first group.
\<close>

text \<open>All matches of \<open>/\[([^\]]+)\]/g\<close>, each search resuming after the last match.\<close>

function bracketMatches :: "string \<Rightarrow> (string \<times> string) list" where
  "bracketMatches [] = []"
| "bracketMatches (c # cs) =
     (if c = CHR ''['' \<and> takeWhile notClose cs \<noteq> [] \<and> dropWhile notClose cs \<noteq> []
      then (c # takeWhile notClose cs @ '']'', takeWhile notClose cs)
             # bracketMatches (tl (dropWhile notClose cs))
      else bracketMatches cs)"
  by pat_completeness auto
termination
proof (relation "measure length")
  fix c :: char and cs :: string
  have "length (tl (dropWhile notClose cs)) \<le> length cs"
    using length_dropWhile_le [of notClose cs] by simp
  then show "(tl (dropWhile notClose cs), c # cs) \<in> measure length" by simp
qed simp_all

text \<open>All matches of \<open>/([A-Z]{1,5})/g\<close>: greedy runs of at most five capitals.\<close>

function upperMatches :: "string \<Rightarrow> (string \<times> string) list" where
  "upperMatches [] = []"
| "upperMatches (c # cs) =
     (if isUpper c
      then (c # take 4 (takeWhile isUpper cs), c # take 4 (takeWhile isUpper cs))
             # upperMatches (drop (length (take 4 (takeWhile isUpper cs))) cs)
      else upperMatches cs)"
  by pat_completeness auto
termination
  by (relation "measure length") simp_all

text \<open>\<open>symbol.length <= 5 && /^[A-Z]+$/.test(symbol)\<close>, then \<open>symbols.add(symbol)\<close>.\<close>

definition validSymbol :: "string \<Rightarrow> bool" where
  "validSymbol symbol = (length symbol \<le> 5 \<and> symbol \<noteq> [] \<and> list_all isUpper symbol)"

definition addSymbol :: "string list \<Rightarrow> string \<Rightarrow> string list" where
  "addSymbol symbols symbol =
     (if validSymbol symbol
      then (if symbol \<in> set symbols then symbols else symbols @ [symbol])
      else symbols)"

text \<open>The body of the \<open>while\<close> loop for one match.\<close>

definition processMatch :: "string list \<Rightarrow> string \<times> string \<Rightarrow> string list" where
  "processMatch symbols m =
     (if snd m \<noteq> []
      then foldl addSymbol symbols (map (\<lambda>s. toUpperCase (trim s)) (split_on CHR '','' (snd m)))
      else if fst m \<noteq> []
      then addSymbol symbols (toUpperCase (fst m))
      else symbols)"

definition parseStockSymbols :: "string \<Rightarrow> string list" where
  "parseStockSymbols input =
     foldl processMatch (foldl processMatch [] (bracketMatches input)) (upperMatches input)"

section \<open>Backend operations (lib/api)\<close>

text \<open>
  The numbers of a response body are values of a type \<open>'n\<close> that the model does not
  look into; what the runtime does with them is a parameter, \<open>number_ops\<close>. A
  \<open>Record<string, T>\<close> is the list of its entries in the order \<open>Object.entries\<close>
  gives them. An optional field is an \<open>option\<close>.
\<close>

record 'n PortfolioAllocation =
  weight :: 'n
  dollar_amount :: 'n
  shares :: 'n

record 'n Portfolio =
  allocations :: "(string \<times> 'n PortfolioAllocation) list"
  expected_return :: 'n
  volatility :: 'n
  sharpe_ratio :: 'n
  net_return :: "'n option"
  net_sharpe_ratio :: "'n option"
  total_investment :: 'n
  transaction_costs :: "'n list option"

record 'n BacktestResults =
  total_return :: 'n
  annual_return :: 'n
  backtest_volatility :: 'n
  backtest_sharpe_ratio :: 'n
  max_drawdown :: 'n
  cumulative_returns :: "'n list"
  dates :: "string list"
  benchmark_returns :: "'n list"
  portfolio_returns :: "'n list"

record 'n RecommendationResponse =
  recommend_success :: bool
  portfolio :: "'n Portfolio"
  backtest :: "'n BacktestResults"
  selected_stocks :: "string list"
  recommend_message :: "string option"

record 'n ClusterData =
  cluster_size :: 'n
  avg_return :: 'n
  avg_volatility :: 'n
  avg_sharpe :: 'n
  risk_level :: string
  stocks :: "string list"

record 'n ClusterResponse =
  cluster_success :: bool
  clusters :: "(string \<times> 'n ClusterData) list"
  cluster_message :: "string option"

record 'n CustomStockResponse =
  stock_success :: bool
  stock_message :: string
  added :: "string list option"
  failed :: "string list option"
  removed :: "string list option"
  not_found :: "string list option"
  total_custom_stocks :: 'n

record 'n ListStocksResponse =
  list_success :: bool
  custom_stocks :: "string list"
  list_total_custom_stocks :: 'n
  total_available_stocks :: 'n
  sp500_stocks_count :: 'n

text \<open>
  What the backend answers to each operation of \<open>apiService\<close>: \<open>Inr\<close> the body of
  the response, \<open>Inl\<close> a rejected promise (transport failure, time-out), which
  \<open>apiService\<close> rethrows.
\<close>

record 'n backend =
  initializeSystem :: "string + 'n ClusterResponse"
  addCustomStocks :: "string list \<Rightarrow> string + 'n CustomStockResponse"
  getRecommendations :: "string \<Rightarrow> jsnum \<Rightarrow> string + 'n RecommendationResponse"
  listCustomStocks :: "string + 'n ListStocksResponse"

text \<open>The operation calls a dispatch makes, in order.\<close>

datatype api_call =
  InitializeSystem
| AddCustomStocks "string list"
| GetRecommendations string jsnum
| ListCustomStocks

text \<open>
  What the JavaScript runtime does with a number: \<open>x.toLocaleString()\<close> in the
  default locale of the viewer, \<open>x * 100\<close>, \<open>x.toFixed(d)\<close>, and the conversion to a
  string inside a template literal.
\<close>

record 'n number_ops =
  toLocaleString :: "'n \<Rightarrow> string"
  times100 :: "'n \<Rightarrow> 'n"
  toFixed :: "nat \<Rightarrow> 'n \<Rightarrow> string"
  numberToString :: "'n \<Rightarrow> string"

section \<open>Replies\<close>

definition digitChar :: "nat \<Rightarrow> char" where
  "digitChar d = ''0123456789'' ! d"

text \<open>A length inside a template literal: its decimal digits.\<close>

function lengthToString :: "nat \<Rightarrow> string" where
  "lengthToString n =
     (if n < 10 then [digitChar n] else lengthToString (n div 10) @ [digitChar (n mod 10)])"
  by pat_completeness auto
termination
  by (relation "measure id") simp_all

fun join :: "string \<Rightarrow> string list \<Rightarrow> string" where
  "join sep [] = []"
| "join sep [x] = x"
| "join sep (x # y # ys) = x @ sep @ join sep (y # ys)"

text \<open>An optional string inside a template literal.\<close>

definition optionalToString :: "string option \<Rightarrow> string" where
  "optionalToString m = (case m of None \<Rightarrow> ''undefined'' | Some s \<Rightarrow> s)"

definition bullet :: string where
  "bullet = [CHR 0xE2, CHR 0x80, CHR 0xA2]"

definition disclaimer :: string where
  "disclaimer = ''Please consult with a financial advisor before making investment decisions.''"

definition allocationLine :: "'n number_ops \<Rightarrow> string \<times> 'n PortfolioAllocation \<Rightarrow> string" where
  "allocationLine ops e =
     bullet @ '' '' @ fst e @ '': '' @ toFixed ops 1 (times100 ops (weight (snd e))) @ ''% (''
       @ numberToString ops (shares (snd e)) @ '' shares)''"

definition formatPortfolioResponse :: "'n number_ops \<Rightarrow> 'n RecommendationResponse \<Rightarrow> string" where
  "formatPortfolioResponse ops result =
     ''Here's your personalized portfolio recommendation:\<newline>\<newline>''
     @ ''**Portfolio Summary:**\<newline>''
     @ bullet @ '' Total Investment: $'' @ toLocaleString ops (total_investment (portfolio result)) @ ''\<newline>''
     @ bullet @ '' Expected Annual Return: ''
         @ toFixed ops 2 (times100 ops (expected_return (portfolio result))) @ ''%\<newline>''
     @ bullet @ '' Portfolio Volatility: ''
         @ toFixed ops 2 (times100 ops (volatility (portfolio result))) @ ''%\<newline>''
     @ bullet @ '' Sharpe Ratio: '' @ toFixed ops 2 (sharpe_ratio (portfolio result)) @ ''\<newline>\<newline>''
     @ ''**Top Allocations:**\<newline>''
     @ join ''\<newline>'' (map (allocationLine ops) (take 5 (allocations (portfolio result))))
     @ ''\<newline>\<newline>''
     @ ''**Historical Performance:**\<newline>''
     @ bullet @ '' Total Return: ''
         @ toFixed ops 2 (times100 ops (total_return (backtest result))) @ ''%\<newline>''
     @ bullet @ '' Annual Return: ''
         @ toFixed ops 2 (times100 ops (annual_return (backtest result))) @ ''%\<newline>''
     @ bullet @ '' Max Drawdown: ''
         @ toFixed ops 2 (times100 ops (max_drawdown (backtest result))) @ ''%\<newline>\<newline>''
     @ disclaimer"

text \<open>The default response of \<open>processMessage\<close>.\<close>

definition helpReply :: "string \<Rightarrow> string" where
  \<open>helpReply message =
     ''I understand you want help with: "'' @ message @ ''". I can assist you with:\<newline>\<newline>''
     @ bullet @ '' Adding custom stocks: "Add the following stocks: [AAPL, MSFT, GOOGL]"\<newline>''
     @ bullet @ '' Getting recommendations: "I want conservative recommendations for $10,000"\<newline>''
     @ bullet @ '' Analyzing clusters: "Show me the market clusters"\<newline>''
     @ bullet @ '' Managing stocks: "List my custom stocks"\<newline>\<newline>''
     @ ''What specific action would you like me to help you with?''\<close>

definition addedReply :: "'n number_ops \<Rightarrow> 'n CustomStockResponse \<Rightarrow> string" where
  "addedReply ops result =
     ''Successfully added ''
     @ lengthToString (case added result of None \<Rightarrow> 0 | Some a \<Rightarrow> length a)
     @ '' custom stocks to your portfolio.''
     @ (case added result of
          None \<Rightarrow> []
        | Some a \<Rightarrow> if length a > 0 then '' Added: '' @ join '', '' a @ ''.'' else [])
     @ (case failed result of
          None \<Rightarrow> []
        | Some f \<Rightarrow> if length f > 0 then '' Failed: '' @ join '', '' f @ ''.'' else [])
     @ '' Total custom stocks: '' @ numberToString ops (total_custom_stocks result) @ ''.''"

section \<open>The dispatcher (ChatInterface)\<close>

text \<open>
  What one run of \<open>processMessage\<close> did: the operations it called, the result it
  handed to \<open>onPortfolioUpdate\<close> if any, and how it ended, \<open>Inr\<close> the reply it
  returned or \<open>Inl\<close> the message of the \<open>Error\<close> it threw.
\<close>

record 'n outcome =
  calls :: "api_call list"
  published :: "'n RecommendationResponse option"
  reply :: "string + string"

definition initializeReply :: "'n backend \<Rightarrow> 'n outcome" where
  "initializeReply be =
     (case initializeSystem be of
        Inr result \<Rightarrow>
          \<lparr>calls = [InitializeSystem], published = None,
           reply = Inr (if cluster_success result
                        then ''System initialized successfully! I've analyzed ''
                             @ lengthToString (length (clusters result))
                             @ '' stock clusters. You can now get personalized recommendations or add custom stocks to your portfolio.''
                        else ''Initialization failed: '' @ optionalToString (cluster_message result))\<rparr>
      | Inl e \<Rightarrow>
          \<lparr>calls = [InitializeSystem], published = None,
           reply = Inl ''Failed to initialize the system''\<rparr>)"

definition addStocksReply :: "'n number_ops \<Rightarrow> 'n backend \<Rightarrow> string list \<Rightarrow> 'n outcome" where
  "addStocksReply ops be stockSymbols =
     (case addCustomStocks be stockSymbols of
        Inr result \<Rightarrow>
          \<lparr>calls = [AddCustomStocks stockSymbols], published = None,
           reply = Inr (if stock_success result then addedReply ops result
                        else ''Failed to add stocks: '' @ stock_message result)\<rparr>
      | Inl e \<Rightarrow>
          \<lparr>calls = [AddCustomStocks stockSymbols], published = None,
           reply = Inl ''Failed to add custom stocks''\<rparr>)"

definition recommendationsReply :: "'n number_ops \<Rightarrow> 'n backend \<Rightarrow> string \<Rightarrow> string \<Rightarrow> 'n outcome" where
  "recommendationsReply ops be lowerMessage message =
     (let riskTolerance = extractRiskTolerance lowerMessage;
          investmentAmount = extractInvestmentAmount message
      in case getRecommendations be riskTolerance investmentAmount of
           Inr result \<Rightarrow>
             (if recommend_success result
              then \<lparr>calls = [GetRecommendations riskTolerance investmentAmount],
                    published = Some result,
                    reply = Inr (formatPortfolioResponse ops result)\<rparr>
              else \<lparr>calls = [GetRecommendations riskTolerance investmentAmount],
                    published = None,
                    reply = Inr (''Failed to get recommendations: ''
                                 @ optionalToString (recommend_message result))\<rparr>)
         | Inl e \<Rightarrow>
             \<lparr>calls = [GetRecommendations riskTolerance investmentAmount], published = None,
              reply = Inl ''Failed to get recommendations''\<rparr>)"

definition listStocksReply :: "'n number_ops \<Rightarrow> 'n backend \<Rightarrow> 'n outcome" where
  \<open>listStocksReply ops be =
     (case listCustomStocks be of
        Inr result \<Rightarrow>
          \<lparr>calls = [ListCustomStocks], published = None,
           reply = Inr (if list_success result
                        then (if length (custom_stocks result) > 0
                              then ''Your custom stocks: '' @ join '', '' (custom_stocks result)
                                   @ ''. Total: '' @ numberToString ops (list_total_custom_stocks result)
                                   @ '' custom stocks out of ''
                                   @ numberToString ops (total_available_stocks result) @ '' available.''
                              else ''No custom stocks added yet. You can add stocks using: "Add the following stocks: [SYMBOL1, SYMBOL2, ...]"'')
                        else ''Failed to get custom stocks list'')\<rparr>
      | Inl e \<Rightarrow>
          \<lparr>calls = [ListCustomStocks], published = None,
           reply = Inl ''Failed to get custom stocks list''\<rparr>)\<close>

text \<open>The conditions of the four \<open>if\<close> statements, on the lower-cased message.\<close>

definition isInitialize :: "string \<Rightarrow> bool" where
  "isInitialize lowerMessage =
     (includes_str lowerMessage ''initialize'' \<or> includes_str lowerMessage ''start'')"

definition isAddStocks :: "string \<Rightarrow> bool" where
  "isAddStocks lowerMessage =
     (includes_str lowerMessage ''add''
      \<and> (includes_str lowerMessage ''stock'' \<or> includes_str lowerMessage ''[''))"

definition isGetRecommendations :: "string \<Rightarrow> bool" where
  "isGetRecommendations lowerMessage =
     (includes_str lowerMessage ''recommend'' \<or> includes_str lowerMessage ''portfolio''
      \<or> includes_str lowerMessage ''invest'')"

definition isListStocks :: "string \<Rightarrow> bool" where
  "isListStocks lowerMessage =
     (includes_str lowerMessage ''list'' \<and> includes_str lowerMessage ''stock'')"

text \<open>
  \<open>processMessage\<close> from the comment \<open>// Get recommendations\<close> on: where control
  arrives when the add-stocks statement did not return.
\<close>

definition afterAddStocks :: "'n number_ops \<Rightarrow> 'n backend \<Rightarrow> string \<Rightarrow> string \<Rightarrow> 'n outcome" where
  "afterAddStocks ops be lowerMessage message =
     (if isGetRecommendations lowerMessage then recommendationsReply ops be lowerMessage message
      else if isListStocks lowerMessage then listStocksReply ops be
      else \<lparr>calls = [], published = None, reply = Inr (helpReply message)\<rparr>)"

definition processMessage :: "'n number_ops \<Rightarrow> 'n backend \<Rightarrow> string \<Rightarrow> 'n outcome" where
  "processMessage ops be message =
     (let lowerMessage = toLowerCase message
      in if isInitialize lowerMessage then initializeReply be
         else if isAddStocks lowerMessage
         then (let stockSymbols = extractStockSymbols message
               in if length stockSymbols > 0 then addStocksReply ops be stockSymbols
                  else afterAddStocks ops be lowerMessage message)
         else afterAddStocks ops be lowerMessage message)"

text \<open>
  The statement of \<open>processMessage\<close> that a message enters: its \<open>if\<close> statements
  are tried from top to bottom, and the first whose condition holds decides.
\<close>

datatype Intent =
  InitializeIntent | AddStocksIntent | GetRecommendationsIntent | ListStocksIntent | UnknownIntent

definition classify :: "string \<Rightarrow> Intent" where
  "classify lowerMessage =
     (if isInitialize lowerMessage then InitializeIntent
      else if isAddStocks lowerMessage then AddStocksIntent
      else if isGetRecommendations lowerMessage then GetRecommendationsIntent
      else if isListStocks lowerMessage then ListStocksIntent
      else UnknownIntent)"

section \<open>The transcript (ChatInterface)\<close>

datatype role = User | Agent

record Message =
  message_id :: string
  message_type :: role
  content :: string
  timestamp :: nat

record chat_state =
  messages :: "Message list"
  inputValue :: string
  isLoading :: bool
  error :: "string option"

text \<open>What \<open>generateId()\<close> and \<open>new Date()\<close> give for the two messages of a submission.\<close>

record stamps =
  user_id :: string
  user_time :: nat
  agent_id :: string
  agent_time :: nat

definition apology :: string where
  "apology = ''I apologize, but I encountered an error. Please try again or check if the API is running.''"

text \<open>
  \<open>handleSubmit\<close>, from the submit event to the end of its \<open>finally\<close> block: the
  state the component is left in.
\<close>

definition handleSubmit :: "'n number_ops \<Rightarrow> 'n backend \<Rightarrow> stamps \<Rightarrow> chat_state \<Rightarrow> chat_state" where
  "handleSubmit ops be st s =
     (if trim (inputValue s) = [] \<or> isLoading s then s
      else
        (let userMessage = \<lparr>message_id = user_id st, message_type = User,
                            content = trim (inputValue s), timestamp = user_time st\<rparr>
         in case reply (processMessage ops be (content userMessage)) of
              Inr response \<Rightarrow>
                \<lparr>messages = messages s @ [userMessage,
                    \<lparr>message_id = agent_id st, message_type = Agent,
                     content = response, timestamp = agent_time st\<rparr>],
                 inputValue = [], isLoading = False, error = None\<rparr>
            | Inl err \<Rightarrow>
                \<lparr>messages = messages s @ [userMessage,
                    \<lparr>message_id = agent_id st, message_type = Agent,
                     content = apology, timestamp = agent_time st\<rparr>],
                 inputValue = [], isLoading = False, error = Some err\<rparr>))"

section \<open>Concrete runtimes, responses and backends\<close>

text \<open>
  The runtime on whole numbers, in a locale that groups thousands with \<open>sep\<close>:
  \<open>(10000).toLocaleString()\<close> is \<open>10,000\<close> for a viewer in \<open>en-US\<close> and \<open>10.000\<close>
  for one in \<open>de-DE\<close>, while \<open>toFixed\<close> writes a full stop everywhere.
\<close>

fun groupReversed :: "string \<Rightarrow> string \<Rightarrow> string" where
  "groupReversed sep (a # b # c # d # rest) = a # b # c # sep @ groupReversed sep (d # rest)"
| "groupReversed sep ds = ds"

definition integerOps :: "string \<Rightarrow> nat number_ops" where
  "integerOps sep =
     \<lparr>toLocaleString = (\<lambda>n. rev (groupReversed sep (rev (lengthToString n)))),
      times100 = (\<lambda>n. 100 * n),
      toFixed = (\<lambda>d n. lengthToString n @ (if d = 0 then [] else ''.'' @ replicate d CHR ''0'')),
      numberToString = lengthToString\<rparr>"

definition enUS :: "nat number_ops" where
  "enUS = integerOps '',''"

definition deDE :: "nat number_ops" where
  "deDE = integerOps ''.''"

definition exampleRecommendation :: "nat RecommendationResponse" where
  "exampleRecommendation =
     \<lparr>recommend_success = True,
      portfolio = \<lparr>allocations = [(''AAPL'', \<lparr>weight = 1, dollar_amount = 10000, shares = 50\<rparr>)],
                   expected_return = 0, volatility = 0, sharpe_ratio = 1,
                   net_return = None, net_sharpe_ratio = None,
                   total_investment = 10000, transaction_costs = None\<rparr>,
      backtest = \<lparr>total_return = 0, annual_return = 0, backtest_volatility = 0,
                  backtest_sharpe_ratio = 1, max_drawdown = 0, cumulative_returns = [],
                  dates = [], benchmark_returns = [], portfolio_returns = []\<rparr>,
      selected_stocks = [''AAPL''],
      recommend_message = None\<rparr>"

definition rateLimited :: "nat RecommendationResponse" where
  "rateLimited =
     exampleRecommendation\<lparr>recommend_success := False, recommend_message := Some ''rate limited''\<rparr>"

text \<open>A backend that cannot be reached, and one that refuses recommendations.\<close>

definition offlineBackend :: "nat backend" where
  "offlineBackend =
     \<lparr>initializeSystem = Inl ''Network Error'',
      addCustomStocks = (\<lambda>stocks. Inl ''Network Error''),
      getRecommendations = (\<lambda>riskTolerance investmentAmount. Inl ''Network Error''),
      listCustomStocks = Inl ''Network Error''\<rparr>"

definition rateLimitedBackend :: "nat backend" where
  "rateLimitedBackend =
     offlineBackend\<lparr>getRecommendations := (\<lambda>riskTolerance investmentAmount. Inr rateLimited)\<rparr>"



section \<open>Substrings\<close>

text \<open>\<open>includes_str\<close> is the substring relation, as \<open>String.prototype.includes\<close>.\<close>

lemma startsWith_iff: "startsWith s t \<longleftrightarrow> (\<exists>q. s = t @ q)"
  by (induction s t rule: startsWith.induct) auto

lemma includes_str_iff: "includes_str s t \<longleftrightarrow> (\<exists>p q. s = p @ t @ q)"
proof (induction s)
  case Nil
  then show ?case by simp
next
  case (Cons a s)
  show ?case
  proof
    assume "includes_str (a # s) t"
    then consider "startsWith (a # s) t" | "includes_str s t" by auto
    then show "\<exists>p q. a # s = p @ t @ q"
    proof cases
      case 1
      then obtain q where "a # s = t @ q" using startsWith_iff by blast
      then have "a # s = [] @ t @ q" by simp
      then show ?thesis by blast
    next
      case 2
      then obtain p q where "s = p @ t @ q" using Cons.IH by blast
      then have "a # s = (a # p) @ t @ q" by simp
      then show ?thesis by blast
    qed
  next
    assume "\<exists>p q. a # s = p @ t @ q"
    then obtain p q where e: "a # s = p @ t @ q" by blast
    show "includes_str (a # s) t"
    proof (cases p)
      case Nil
      with e have "startsWith (a # s) t" using startsWith_iff by auto
      then show ?thesis by simp
    next
      case (Cons b p')
      with e have "s = p' @ t @ q" by simp
      then have "includes_str s t" using Cons.IH by blast
      then show ?thesis by simp
    qed
  qed
qed

section \<open>Risk tolerance\<close>

text \<open>
  C8. Risk-tolerance extraction is a total function into the three categories, decided
  in the order of the source: text containing \<open>conservative\<close> or \<open>safe\<close> gives
  \<open>conservative\<close>; otherwise text containing \<open>aggressive\<close> or \<open>growth\<close> gives
  \<open>aggressive\<close>; every other text gives the default \<open>balanced\<close>.
\<close>

theorem extractRiskTolerance_total:
  "extractRiskTolerance text \<in> {''conservative'', ''balanced'', ''aggressive''}
   \<and> (extractRiskTolerance text = ''conservative''
        \<longleftrightarrow> includes_str text ''conservative'' \<or> includes_str text ''safe'')
   \<and> (extractRiskTolerance text = ''aggressive''
        \<longleftrightarrow> \<not> (includes_str text ''conservative'' \<or> includes_str text ''safe'')
            \<and> (includes_str text ''aggressive'' \<or> includes_str text ''growth''))
   \<and> (extractRiskTolerance text = ''balanced''
        \<longleftrightarrow> \<not> (includes_str text ''conservative'' \<or> includes_str text ''safe''
               \<or> includes_str text ''aggressive'' \<or> includes_str text ''growth''))"
  by (simp add: extractRiskTolerance_def)

text \<open>
  C10. The conservative trigger words are checked before the aggressive ones: a text
  containing trigger words of both categories is \<open>conservative\<close>.
\<close>

theorem conservative_before_aggressive:
  assumes "includes_str text ''conservative'' \<or> includes_str text ''safe''"
    and "includes_str text ''aggressive'' \<or> includes_str text ''growth''"
  shows "extractRiskTolerance text = ''conservative''"
  using assms by (simp add: extractRiskTolerance_def)

theorem conservative_before_aggressive_witness:
  "includes_str ''safe growth'' ''safe'' \<and> includes_str ''safe growth'' ''growth''
   \<and> extractRiskTolerance ''safe growth'' = ''conservative''"
proof -
  have a: "includes_str ''safe growth'' ''conservative'' \<or> includes_str ''safe growth'' ''safe''" by simp
  have b: "includes_str ''safe growth'' ''aggressive'' \<or> includes_str ''safe growth'' ''growth''" by simp
  from conservative_before_aggressive [OF a b] show ?thesis by simp
qed


section \<open>Unfolding sets for evaluation\<close>

lemmas string_defs =
  toLowerCase_def toLowerChar_def toUpperCase_def toUpperChar_def upper_letters_def
  lower_letters_def trim_def isWhiteSpace_def isUpper_def isDigit_def notClose_def

lemmas rule_defs = isInitialize_def isAddStocks_def isGetRecommendations_def isListStocks_def

lemmas amount_defs =
  extractInvestmentAmount_def amountMatchAt_def amountGroup_def isDigitOrComma_def
  fraction2_def parseFloat_def

lemmas reply_defs =
  processMessage_def afterAddStocks_def initializeReply_def addStocksReply_def
  recommendationsReply_def listStocksReply_def

section \<open>Stock symbols: the first bracketed list\<close>

text \<open>
  \<open>bracketMatch\<close> finds a bracketed list exactly when the text has one, and then the
  leftmost one.
\<close>

lemma takeWhile_notClose:
  assumes "CHR '']'' \<notin> set g"
  shows "takeWhile notClose (g @ CHR '']'' # q) = g"
    and "dropWhile notClose (g @ CHR '']'' # q) = CHR '']'' # q"
proof -
  have "\<And>x. x \<in> set g \<Longrightarrow> notClose x" using assms by (auto simp: notClose_def)
  then show "takeWhile notClose (g @ CHR '']'' # q) = g"
    and "dropWhile notClose (g @ CHR '']'' # q) = CHR '']'' # q"
    by (simp_all add: takeWhile_append2 dropWhile_append2 notClose_def)
qed

lemma dropWhile_notClose:
  assumes "dropWhile notClose cs \<noteq> []"
  shows "\<exists>q. dropWhile notClose cs = CHR '']'' # q"
proof -
  obtain x q where d: "dropWhile notClose cs = x # q"
    using assms by (cases "dropWhile notClose cs") auto
  then have "\<not> notClose x" using hd_dropWhile [of notClose cs] by auto
  then have "x = CHR '']''" by (simp add: notClose_def)
  with d show ?thesis by simp
qed

lemma bracketAt_head:
  "bracketAt (c # cs) [] g q \<longleftrightarrow>
     c = CHR ''['' \<and> takeWhile notClose cs = g \<and> g \<noteq> [] \<and> dropWhile notClose cs = CHR '']'' # q"
proof
  assume "bracketAt (c # cs) [] g q"
  then show "c = CHR ''['' \<and> takeWhile notClose cs = g \<and> g \<noteq> [] \<and> dropWhile notClose cs = CHR '']'' # q"
    by (auto simp: bracketAt_def takeWhile_notClose)
next
  assume a: "c = CHR ''['' \<and> takeWhile notClose cs = g \<and> g \<noteq> [] \<and> dropWhile notClose cs = CHR '']'' # q"
  then have "cs = g @ CHR '']'' # q" using takeWhile_dropWhile_id [of notClose cs] by simp
  moreover have "CHR '']'' \<notin> set g"
    using a set_takeWhileD [of "CHR '']''" notClose cs] by (auto simp: notClose_def)
  ultimately show "bracketAt (c # cs) [] g q" using a by (simp add: bracketAt_def)
qed

lemma bracketAt_tail: "bracketAt (c # cs) (c' # p) g q \<longleftrightarrow> c' = c \<and> bracketAt cs p g q"
  by (auto simp: bracketAt_def)

lemma bracketMatch_head:
  assumes "bracketAt (c # cs) [] g q"
  shows "bracketMatch (c # cs) = Some g"
proof -
  from assms have "c = CHR ''[''" "takeWhile notClose cs = g" "g \<noteq> []"
    "dropWhile notClose cs = CHR '']'' # q"
    by (simp_all add: bracketAt_head)
  then have "c = CHR ''['' \<and> takeWhile notClose cs \<noteq> [] \<and> dropWhile notClose cs \<noteq> []"
    by simp
  then have "bracketMatch (c # cs) = Some (takeWhile notClose cs)"
    using bracketMatch.simps(2) [of c cs] by presburger
  with \<open>takeWhile notClose cs = g\<close> show ?thesis by simp
qed

lemma bracketMatch_None: "bracketMatch s = None \<Longrightarrow> \<not> bracketAt s p g q"
proof (induction s arbitrary: p)
  case Nil
  then show ?case by (simp add: bracketAt_def)
next
  case (Cons c cs)
  show ?case
  proof (cases p)
    case Nil
    show ?thesis
    proof
      assume "bracketAt (c # cs) p g q"
      with Nil have "bracketMatch (c # cs) = Some g" using bracketMatch_head by simp
      with Cons.prems show False by simp
    qed
  next
    case (Cons c' p')
    from Cons.prems have "bracketMatch cs = None" by (simp split: if_splits)
    then have "\<not> bracketAt cs p' g q" using Cons.IH by blast
    with Cons show ?thesis by (simp add: bracketAt_tail)
  qed
qed

lemma bracketMatch_Some:
  "bracketMatch s = Some g \<Longrightarrow>
     \<exists>p q. bracketAt s p g q \<and> (\<forall>p' g' q'. bracketAt s p' g' q' \<longrightarrow> length p \<le> length p')"
proof (induction s)
  case Nil
  then show ?case by simp
next
  case (Cons c cs)
  show ?case
  proof (cases "c = CHR ''['' \<and> takeWhile notClose cs \<noteq> [] \<and> dropWhile notClose cs \<noteq> []")
    case True
    with Cons.prems have g: "takeWhile notClose cs = g" by simp
    from True obtain q where "dropWhile notClose cs = CHR '']'' # q"
      using dropWhile_notClose by blast
    with True g have "bracketAt (c # cs) [] g q" by (simp add: bracketAt_head)
    then show ?thesis by force
  next
    case False
    with Cons.prems have "bracketMatch cs = Some g" by (simp split: if_splits)
    with Cons.IH obtain p q where
      b: "bracketAt cs p g q" and m: "\<forall>p' g' q'. bracketAt cs p' g' q' \<longrightarrow> length p \<le> length p'"
      by blast
    have "bracketAt (c # cs) (c # p) g q" using b by (simp add: bracketAt_tail)
    moreover have "length (c # p) \<le> length p'" if h: "bracketAt (c # cs) p' g' q'" for p' g' q'
    proof (cases p')
      case Nil
      with h False show ?thesis by (auto simp: bracketAt_head)
    next
      case (Cons c' p'')
      with h m show ?thesis by (auto simp: bracketAt_tail)
    qed
    ultimately show ?thesis by blast
  qed
qed

text \<open>
  C1. Symbol extraction should keep only the tokens of one to five capital letters,
  each once, and fall back to bare capitals when the text has no bracketed list. The
  chat's extractor does none of the three: from \<open>[AAPL, AAPL, msft]\<close> it returns
  \<open>AAPL\<close> twice, and from \<open>buy AAPL\<close> nothing. The stock manager's
  \<open>parseStockSymbols\<close> returns \<open>AAPL, MSFT\<close> and \<open>AAPL\<close> on the same inputs.
\<close>

theorem extractStockSymbols_not_reference:
  "extractStockSymbols ''[AAPL, AAPL, msft]'' = [''AAPL'', ''AAPL'', ''MSFT'']
   \<and> extractStockSymbols ''[AAPL, AAPL, msft]'' \<noteq> [''AAPL'', ''MSFT'']
   \<and> parseStockSymbols ''[AAPL, AAPL, msft]'' = [''AAPL'', ''MSFT'']
   \<and> extractStockSymbols ''buy AAPL'' = []
   \<and> parseStockSymbols ''buy AAPL'' = [''AAPL'']"
  by (simp add: extractStockSymbols_def parseStockSymbols_def processMatch_def addSymbol_def
      validSymbol_def string_defs)

text \<open>
  C4. Every emitted symbol should be one to five capital letters. The chat's extractor
  does not check: from \<open>[a1, TOOLONGSYM, bb]\<close> it emits \<open>A1\<close> and \<open>TOOLONGSYM\<close>.
\<close>

theorem extractStockSymbols_emits_invalid:
  "extractStockSymbols ''[a1, TOOLONGSYM, bb]'' = [''A1'', ''TOOLONGSYM'', ''BB'']
   \<and> \<not> validSymbol ''A1'' \<and> \<not> validSymbol ''TOOLONGSYM''"
  by (simp add: extractStockSymbols_def validSymbol_def string_defs)


section \<open>Stock symbols: the stock manager's parser\<close>

text \<open>
  \<open>parseStockSymbols\<close> keeps only symbols of one to five capital letters, each once.
\<close>

lemma addSymbol_valid:
  "list_all validSymbol acc \<Longrightarrow> distinct acc \<Longrightarrow>
     list_all validSymbol (addSymbol acc x) \<and> distinct (addSymbol acc x)"
  by (simp add: addSymbol_def)

lemma foldl_addSymbol_valid:
  "list_all validSymbol acc \<Longrightarrow> distinct acc \<Longrightarrow>
     list_all validSymbol (foldl addSymbol acc xs) \<and> distinct (foldl addSymbol acc xs)"
  by (induction xs arbitrary: acc) (simp_all add: addSymbol_valid)

lemma processMatch_valid:
  "list_all validSymbol acc \<Longrightarrow> distinct acc \<Longrightarrow>
     list_all validSymbol (processMatch acc m) \<and> distinct (processMatch acc m)"
  by (simp add: processMatch_def foldl_addSymbol_valid addSymbol_valid)

lemma foldl_processMatch_valid:
  "list_all validSymbol acc \<Longrightarrow> distinct acc \<Longrightarrow>
     list_all validSymbol (foldl processMatch acc ms) \<and> distinct (foldl processMatch acc ms)"
  by (induction ms arbitrary: acc) (simp_all add: processMatch_valid)

lemma parseStockSymbols_valid:
  "list_all validSymbol (parseStockSymbols input) \<and> distinct (parseStockSymbols input)"
  by (simp add: parseStockSymbols_def foldl_processMatch_valid)

lemma parseStockSymbols_examples:
  "parseStockSymbols ''[AAPL, AAPL, msft]'' = [''AAPL'', ''MSFT'']"
  "parseStockSymbols ''[a1, TOOLONGSYM, bb]'' = [''BB'', ''TOOLO'', ''NGSYM'']"
  by (simp_all add: parseStockSymbols_def processMatch_def addSymbol_def validSymbol_def string_defs)

section \<open>Investment amount\<close>

text \<open>A text with neither a digit nor a comma has no match and gets the default.\<close>

lemma amountMatch_None:
  "(\<forall>c \<in> set s. \<not> isDigitOrComma c) \<Longrightarrow> amountMatch s = None"
proof (induction s)
  case Nil
  then show ?case by simp
next
  case (Cons c cs)
  then have "amountGroup (c # cs) = None" by (simp add: amountGroup_def)
  moreover have "amountGroup cs = None" using Cons.prems by (cases cs) (simp_all add: amountGroup_def)
  ultimately have "amountMatchAt (c # cs) = None" by (auto simp: amountMatchAt_def)
  with Cons show ?case by simp
qed

lemma extractInvestmentAmount_default:
  "(\<forall>c \<in> set s. \<not> isDigitOrComma c) \<Longrightarrow> extractInvestmentAmount s = Num 10000"
  by (simp add: extractInvestmentAmount_def amountMatch_None)

lemma extractInvestmentAmount_examples:
  "extractInvestmentAmount ''$10,000.50'' = Num (20001 / 2)"
  "extractInvestmentAmount ''I want conservative recommendations for $5,000'' = Num 5000"
  "extractInvestmentAmount ''no amount here'' = Num 10000"
  by (simp_all add: amount_defs string_defs)

text \<open>
  C5. The amount is the first match with its commas stripped, and text without digits
  gets the default. \<open>replace(',', '')\<close> strips the first comma only, so the amount
  of \<open>$1,000,000\<close> comes out as 1000; and the pattern matches a lone comma, so text
  whose first digit-or-comma is a comma comes out as \<open>NaN\<close>, not as 10000.
\<close>

theorem extractInvestmentAmount_first_comma_only:
  "extractInvestmentAmount ''$1,000,000'' = Num 1000
   \<and> extractInvestmentAmount ''$,'' = NaN
   \<and> extractInvestmentAmount ''Hello, I want to invest $5000'' = NaN"
  by (simp add: amount_defs string_defs)

section \<open>The dispatcher\<close>

text \<open>The operation a message makes the dispatcher call: at most one.\<close>

lemma calls_afterAddStocks:
  "calls (afterAddStocks ops be lm m) =
     (if isGetRecommendations lm then [GetRecommendations (extractRiskTolerance lm) (extractInvestmentAmount m)]
      else if isListStocks lm then [ListCustomStocks] else [])"
  by (simp add: afterAddStocks_def recommendationsReply_def listStocksReply_def Let_def
      split: sum.splits)

lemma calls_processMessage:
  "calls (processMessage ops be m) =
     (if isInitialize (toLowerCase m) then [InitializeSystem]
      else if isAddStocks (toLowerCase m) \<and> extractStockSymbols m \<noteq> []
      then [AddCustomStocks (extractStockSymbols m)]
      else if isGetRecommendations (toLowerCase m)
      then [GetRecommendations (extractRiskTolerance (toLowerCase m)) (extractInvestmentAmount m)]
      else if isListStocks (toLowerCase m) then [ListCustomStocks]
      else [])"
  by (simp add: processMessage_def calls_afterAddStocks initializeReply_def addStocksReply_def Let_def
      split: sum.splits)

text \<open>
  C2, as the dispatcher has it. For a message that meets the add-stocks condition (and
  not the initialize one) and yields no symbols, \<open>addCustomStocks\<close> is not called and
  control goes on to the statements below: a message that also meets the
  recommendations condition calls \<open>getRecommendations\<close>, else one that meets the
  list condition calls \<open>listCustomStocks\<close>, and only otherwise is the reply the help
  text, with no operation called.
\<close>

theorem empty_extraction_falls_through:
  assumes "\<not> isInitialize (toLowerCase m)" and "isAddStocks (toLowerCase m)"
    and "extractStockSymbols m = []"
  shows "(\<forall>symbols. AddCustomStocks symbols \<notin> set (calls (processMessage ops be m)))
    \<and> (if isGetRecommendations (toLowerCase m)
       then calls (processMessage ops be m)
              = [GetRecommendations (extractRiskTolerance (toLowerCase m)) (extractInvestmentAmount m)]
       else if isListStocks (toLowerCase m)
       then calls (processMessage ops be m) = [ListCustomStocks]
       else processMessage ops be m = \<lparr>calls = [], published = None, reply = Inr (helpReply m)\<rparr>)"
proof -
  have c: "calls (processMessage ops be m) =
     (if isGetRecommendations (toLowerCase m)
      then [GetRecommendations (extractRiskTolerance (toLowerCase m)) (extractInvestmentAmount m)]
      else if isListStocks (toLowerCase m) then [ListCustomStocks] else [])"
    using assms by (simp add: calls_processMessage)
  have "processMessage ops be m = afterAddStocks ops be (toLowerCase m) m"
    using assms by (simp add: processMessage_def)
  then have h: "\<not> isGetRecommendations (toLowerCase m) \<Longrightarrow> \<not> isListStocks (toLowerCase m) \<Longrightarrow>
      processMessage ops be m = \<lparr>calls = [], published = None, reply = Inr (helpReply m)\<rparr>"
    by (simp add: afterAddStocks_def)
  from c h show ?thesis by auto
qed

theorem empty_extraction_falls_through_witness:
  "\<not> isInitialize (toLowerCase ''Add [] stocks'') \<and> isAddStocks (toLowerCase ''Add [] stocks'')
   \<and> extractStockSymbols ''Add [] stocks'' = []
   \<and> processMessage enUS offlineBackend ''Add [] stocks''
       = \<lparr>calls = [], published = None, reply = Inr (helpReply ''Add [] stocks'')\<rparr>"
proof -
  have a: "\<not> isInitialize (toLowerCase ''Add [] stocks'')"
    by (simp add: rule_defs string_defs)
  have b: "isAddStocks (toLowerCase ''Add [] stocks'')"
    by (simp add: rule_defs string_defs)
  have c: "extractStockSymbols ''Add [] stocks'' = []"
    by (simp add: extractStockSymbols_def string_defs)
  have d: "\<not> isGetRecommendations (toLowerCase ''Add [] stocks'')"
    "\<not> isListStocks (toLowerCase ''Add [] stocks'')"
    by (simp_all add: rule_defs string_defs)
  from empty_extraction_falls_through [OF a b c, of enUS offlineBackend] d
  have "processMessage enUS offlineBackend ''Add [] stocks''
       = \<lparr>calls = [], published = None, reply = Inr (helpReply ''Add [] stocks'')\<rparr>"
    by simp
  with a b c show ?thesis by simp
qed

text \<open>
  C2 as stated fails: this message meets the add-stocks condition, yields no symbols,
  and makes the dispatcher call \<open>getRecommendations\<close>.
\<close>

theorem empty_extraction_calls_backend:
  "isAddStocks (toLowerCase ''Add stocks to invest'')
   \<and> \<not> isInitialize (toLowerCase ''Add stocks to invest'')
   \<and> extractStockSymbols ''Add stocks to invest'' = []
   \<and> calls (processMessage enUS offlineBackend ''Add stocks to invest'')
       = [GetRecommendations ''balanced'' (Num 10000)]
   \<and> reply (processMessage enUS offlineBackend ''Add stocks to invest'')
       \<noteq> Inr (helpReply ''Add stocks to invest'')"
  by (simp add: reply_defs rule_defs amount_defs extractStockSymbols_def extractRiskTolerance_def
      offlineBackend_def string_defs)


text \<open>
  \<open>classify\<close> names the statement that \<open>processMessage\<close> enters: what the
  dispatcher does with a message is what that statement does. The add-stocks
  statement returns only when there are symbols; without them control goes on to the
  statements below it.
\<close>

lemma processMessage_classify:
  "processMessage ops be m =
     (case classify (toLowerCase m) of
        InitializeIntent \<Rightarrow> initializeReply be
      | AddStocksIntent \<Rightarrow>
          (if length (extractStockSymbols m) > 0 then addStocksReply ops be (extractStockSymbols m)
           else afterAddStocks ops be (toLowerCase m) m)
      | GetRecommendationsIntent \<Rightarrow> recommendationsReply ops be (toLowerCase m) m
      | ListStocksIntent \<Rightarrow> listStocksReply ops be
      | UnknownIntent \<Rightarrow> \<lparr>calls = [], published = None, reply = Inr (helpReply m)\<rparr>)"
  by (simp add: processMessage_def classify_def afterAddStocks_def Let_def)

text \<open>
  C3. A message whose lower-cased text contains \<open>add\<close> and \<open>stock\<close>, and also
  \<open>recommend\<close> or \<open>portfolio\<close>, and neither \<open>initialize\<close> nor \<open>start\<close>, is
  classified as add-stocks although it meets the recommendations condition too: the
  add-stocks statement comes first, and it is the one \<open>processMessage\<close> enters.
\<close>

theorem add_rule_before_recommendations:
  assumes "includes_str (toLowerCase m) ''add''" and "includes_str (toLowerCase m) ''stock''"
    and "includes_str (toLowerCase m) ''recommend'' \<or> includes_str (toLowerCase m) ''portfolio''"
    and "\<not> includes_str (toLowerCase m) ''initialize''" and "\<not> includes_str (toLowerCase m) ''start''"
  shows "classify (toLowerCase m) = AddStocksIntent
    \<and> isGetRecommendations (toLowerCase m)
    \<and> processMessage ops be m =
        (if length (extractStockSymbols m) > 0 then addStocksReply ops be (extractStockSymbols m)
         else afterAddStocks ops be (toLowerCase m) m)"
proof -
  from assms have c: "classify (toLowerCase m) = AddStocksIntent"
    by (simp add: classify_def rule_defs)
  from assms(3) have "isGetRecommendations (toLowerCase m)"
    by (auto simp: isGetRecommendations_def)
  with c show ?thesis using processMessage_classify [of ops be m] by simp
qed

theorem add_rule_before_recommendations_witness:
  "includes_str (toLowerCase ''Add stocks [PLTR, MKL] to my portfolio'') ''add''
   \<and> includes_str (toLowerCase ''Add stocks [PLTR, MKL] to my portfolio'') ''stock''
   \<and> includes_str (toLowerCase ''Add stocks [PLTR, MKL] to my portfolio'') ''portfolio''
   \<and> \<not> includes_str (toLowerCase ''Add stocks [PLTR, MKL] to my portfolio'') ''initialize''
   \<and> \<not> includes_str (toLowerCase ''Add stocks [PLTR, MKL] to my portfolio'') ''start''
   \<and> classify (toLowerCase ''Add stocks [PLTR, MKL] to my portfolio'') = AddStocksIntent
   \<and> processMessage enUS offlineBackend ''Add stocks [PLTR, MKL] to my portfolio''
       = addStocksReply enUS offlineBackend [''PLTR'', ''MKL'']"
proof -
  let ?m = "''Add stocks [PLTR, MKL] to my portfolio''"
  have a: "includes_str (toLowerCase ?m) ''add''" by (simp add: string_defs)
  have b: "includes_str (toLowerCase ?m) ''stock''" by (simp add: string_defs)
  have c': "includes_str (toLowerCase ?m) ''portfolio''" by (simp add: string_defs)
  then have c: "includes_str (toLowerCase ?m) ''recommend'' \<or> includes_str (toLowerCase ?m) ''portfolio''"
    by simp
  have d: "\<not> includes_str (toLowerCase ?m) ''initialize''" by (simp add: string_defs)
  have e: "\<not> includes_str (toLowerCase ?m) ''start''" by (simp add: string_defs)
  have f: "extractStockSymbols ?m = [''PLTR'', ''MKL'']"
    by (simp add: extractStockSymbols_def string_defs)
  from add_rule_before_recommendations [OF a b c d e, of enUS offlineBackend] f
  have "classify (toLowerCase ?m) = AddStocksIntent"
    and "processMessage enUS offlineBackend ?m = addStocksReply enUS offlineBackend [''PLTR'', ''MKL'']"
    by simp_all
  with a b c' d e show ?thesis by simp
qed

text \<open>
  C7. Whenever the dispatcher calls \<open>getRecommendations\<close> and the backend answers
  \<open>success: false\<close> with a message, the reply is \<open>Failed to get recommendations: \<close>
  followed by that message.
\<close>

theorem recommendations_failure_reply:
  assumes "calls (processMessage ops be m) = [GetRecommendations riskTolerance investmentAmount]"
    and "getRecommendations be riskTolerance investmentAmount = Inr result"
    and "\<not> recommend_success result" and "recommend_message result = Some msg"
  shows "reply (processMessage ops be m) = Inr (''Failed to get recommendations: '' @ msg)"
proof -
  let ?lm = "toLowerCase m"
  from assms(1) have n: "\<not> isInitialize ?lm" "\<not> (isAddStocks ?lm \<and> extractStockSymbols m \<noteq> [])"
    "isGetRecommendations ?lm"
    by (auto simp: calls_processMessage split: if_splits)
  with assms(1) have r: "riskTolerance = extractRiskTolerance ?lm"
    "investmentAmount = extractInvestmentAmount m"
    by (auto simp: calls_processMessage)
  from n have "processMessage ops be m = recommendationsReply ops be ?lm m"
    by (auto simp: processMessage_def afterAddStocks_def Let_def)
  with assms(2-4) r show ?thesis
    by (simp add: recommendationsReply_def optionalToString_def)
qed

theorem recommendations_failure_reply_witness:
  "calls (processMessage enUS rateLimitedBackend ''I want conservative recommendations for $5,000'')
     = [GetRecommendations ''conservative'' (Num 5000)]
   \<and> getRecommendations rateLimitedBackend ''conservative'' (Num 5000) = Inr rateLimited
   \<and> \<not> recommend_success rateLimited \<and> recommend_message rateLimited = Some ''rate limited''
   \<and> reply (processMessage enUS rateLimitedBackend ''I want conservative recommendations for $5,000'')
       = Inr ''Failed to get recommendations: rate limited''"
proof -
  let ?m = "''I want conservative recommendations for $5,000''"
  have a: "calls (processMessage enUS rateLimitedBackend ?m)
     = [GetRecommendations ''conservative'' (Num 5000)]"
    by (simp add: calls_processMessage rule_defs amount_defs extractStockSymbols_def
        extractRiskTolerance_def string_defs)
  have b: "getRecommendations rateLimitedBackend ''conservative'' (Num 5000) = Inr rateLimited"
    by (simp add: rateLimitedBackend_def offlineBackend_def)
  have c: "\<not> recommend_success rateLimited" by (simp add: rateLimited_def)
  have d: "recommend_message rateLimited = Some ''rate limited''" by (simp add: rateLimited_def)
  from recommendations_failure_reply [OF a b c d]
  have "reply (processMessage enUS rateLimitedBackend ?m)
       = Inr ''Failed to get recommendations: rate limited''" by simp
  with a b c d show ?thesis by simp
qed


section \<open>The transcript\<close>

lemma includes_str_middle: "includes_str (p @ t @ q) t"
  using includes_str_iff by blast





text \<open>A blank input, or one sent while a request is outstanding, changes nothing.\<close>

lemma handleSubmit_rejected:
  "trim (inputValue s) = [] \<or> isLoading s \<Longrightarrow> handleSubmit ops be st s = s"
  by (simp add: handleSubmit_def)

section \<open>The recommendation reply\<close>

text \<open>
  The reply ends with the disclaimer and holds the lines of the first five allocations,
  in the order received, one per line.
\<close>

lemma formatPortfolioResponse_disclaimer:
  "\<exists>pre. formatPortfolioResponse ops result = pre @ disclaimer"
  unfolding formatPortfolioResponse_def by (metis append.assoc)

lemma formatPortfolioResponse_allocations:
  "includes_str (formatPortfolioResponse ops result)
     (join ''\<newline>'' (map (allocationLine ops) (take 5 (allocations (portfolio result)))))"
proof -
  obtain p q where "formatPortfolioResponse ops result =
      p @ join ''\<newline>'' (map (allocationLine ops) (take 5 (allocations (portfolio result)))) @ q"
    unfolding formatPortfolioResponse_def by (metis append.assoc)
  then show ?thesis using includes_str_middle by simp
qed

text \<open>
  The locale of the viewer reaches the reply through the total investment, and only
  through it.
\<close>

lemma allocationLine_locale: "allocationLine (ops\<lparr>toLocaleString := f\<rparr>) = allocationLine ops"
  by (rule ext) (simp add: allocationLine_def)

lemma formatPortfolioResponse_locale:
  "formatPortfolioResponse (ops\<lparr>toLocaleString := f\<rparr>) result
     = formatPortfolioResponse (ops\<lparr>toLocaleString := g\<rparr>) result
   \<longleftrightarrow> f (total_investment (portfolio result)) = g (total_investment (portfolio result))"
  by (simp add: formatPortfolioResponse_def allocationLine_locale)

text \<open>
  C9. The reply should be the same for every viewer. The total investment is
  formatted with \<open>toLocaleString()\<close> in the viewer's own locale, so the reply to the
  same result differs between a viewer in \<open>en-US\<close> and one in \<open>de-DE\<close>.
\<close>

theorem formatPortfolioResponse_depends_on_locale:
  "toLocaleString enUS (total_investment (portfolio exampleRecommendation)) = ''10,000''
   \<and> toLocaleString deDE (total_investment (portfolio exampleRecommendation)) = ''10.000''
   \<and> formatPortfolioResponse enUS exampleRecommendation
       \<noteq> formatPortfolioResponse deDE exampleRecommendation"
proof -
  have t: "total_investment (portfolio exampleRecommendation) = 10000"
    by (simp add: exampleRecommendation_def)
  have a: "toLocaleString enUS (total_investment (portfolio exampleRecommendation)) = ''10,000''"
    unfolding t by (simp add: enUS_def integerOps_def digitChar_def)
  have b: "toLocaleString deDE (total_investment (portfolio exampleRecommendation)) = ''10.000''"
    unfolding t by (simp add: deDE_def integerOps_def digitChar_def)
  have e: "enUS = (integerOps [])\<lparr>toLocaleString := toLocaleString enUS\<rparr>"
    "deDE = (integerOps [])\<lparr>toLocaleString := toLocaleString deDE\<rparr>"
    by (simp_all add: enUS_def deDE_def integerOps_def)
  have "formatPortfolioResponse ((integerOps [])\<lparr>toLocaleString := toLocaleString enUS\<rparr>) exampleRecommendation
       \<noteq> formatPortfolioResponse ((integerOps [])\<lparr>toLocaleString := toLocaleString deDE\<rparr>) exampleRecommendation"
    unfolding formatPortfolioResponse_locale a b by simp
  with e have "formatPortfolioResponse enUS exampleRecommendation
       \<noteq> formatPortfolioResponse deDE exampleRecommendation" by simp
  with a b show ?thesis by simp
qed


end
